theory Spec2Isabelle
  imports Main
begin

section \<open>Go values used by the program\<close>

subsection \<open>Errors\<close>

text \<open>
  A Go \<open>error\<close> is either \<open>nil\<close> or an error value. The only error values the program
  builds itself are those of \<open>errors.Join\<close>, which wraps the non-nil arguments it is given,
  in order, and is \<open>nil\<close> when every argument is \<open>nil\<close>. All other errors come from the
  SDK and the HTTP server and are opaque (\<open>Err\<close>).
\<close>

datatype err = Err string | JoinError "err list"

type_synonym error = "err option"

definition errors_Join :: "error list \<Rightarrow> error" where
  "errors_Join errs =
     (case List.map_filter id errs of
        [] \<Rightarrow> None
      | e # es \<Rightarrow> Some (JoinError (e # es)))"

text \<open>
  \<open>errors.Is\<close>: the error is the target, or it is a join one of whose members matches
  (the tree walk over \<open>Unwrap() []error\<close>).
\<close>

fun errors_Is :: "err \<Rightarrow> err \<Rightarrow> bool" where
  "errors_Is (Err s) target = (Err s = target)"
| "errors_Is (JoinError es) target =
     (JoinError es = target \<or> list_ex (\<lambda>e. errors_Is e target) es)"

fun error_Is :: "error \<Rightarrow> err \<Rightarrow> bool" where
  "error_Is None target = False"
| "error_Is (Some e) target = errors_Is e target"

subsection \<open>Contexts\<close>

text \<open>
  The program builds \<open>context.Background()\<close> and \<open>signal.NotifyContext(parent, os.Interrupt)\<close>.
  \<open>WithDeadline\<close> is the context package's way of attaching a deadline; the program never
  calls it. \<open>Deadline\<close> is the method of the same name: the earliest deadline on the chain
  of parents, if any.
\<close>

datatype Context = Background | NotifyContext Context | WithDeadline Context nat

fun Deadline :: "Context \<Rightarrow> nat option" where
  "Deadline Background = None"
| "Deadline (NotifyContext parent) = Deadline parent"
| "Deadline (WithDeadline parent d) =
     (case Deadline parent of None \<Rightarrow> Some d | Some d' \<Rightarrow> Some (min d d'))"

subsection \<open>The telemetry SDK as seen by the program\<close>

datatype kind = Tracer | Meter | Logger

datatype propagator = TraceContext | Baggage | CompositeTextMapPropagator "propagator list"

datatype provider = Provider kind

fun provider_kind :: "provider \<Rightarrow> kind" where
  "provider_kind (Provider k) = k"

text \<open>
  Every call that leaves \<open>setupOTelSDK\<close> or \<open>run\<close>, and every append to the shutdown
  registry, is recorded in the order in which it happens.
\<close>

datatype event =
    EvSetTextMapPropagator propagator
  | EvNewExporter kind
  | EvNewProvider kind
  | EvAppend kind
  | EvSetProvider kind
  | EvShutdown kind Context
  | EvGoListenAndServe
  | EvStop
  | EvServerShutdown Context

text \<open>The process-wide defaults of the SDK, and the record of calls.\<close>

record world =
  events :: "event list"
  TextMapPropagator :: "propagator option"
  TracerProvider :: "provider option"
  MeterProvider :: "provider option"
  LoggerProvider :: "provider option"

definition emit :: "event \<Rightarrow> world \<Rightarrow> world" where
  "emit ev w = w\<lparr>events := events w @ [ev]\<rparr>"

text \<open>Which receive of the \<open>select\<close> in \<open>run\<close> fires first.\<close>

datatype select_case = RecvSrvErr error | CtxDone

text \<open>
  What the outside returns: the exporter constructors (\<open>stdouttrace.New\<close>,
  \<open>stdoutmetric.New\<close>, \<open>stdoutlog.New\<close>), the \<open>Shutdown\<close> method of each provider, the
  \<open>select\<close> between the server-error channel and the interrupt, and \<open>srv.Shutdown\<close>.
  A run calls each exporter constructor at most once, so its result is one value per
  kind. The SDK's \<open>Shutdown\<close> methods and \<open>srv.Shutdown\<close> are taken to return, and to
  leave the process-wide defaults as they are.
\<close>

record env =
  exporter_New :: "kind \<Rightarrow> error"
  Shutdown_result :: "kind \<Rightarrow> Context \<Rightarrow> error"
  select_result :: select_case
  server_Shutdown_result :: "Context \<Rightarrow> error"

definition otel_SetTextMapPropagator :: "propagator \<Rightarrow> world \<Rightarrow> world" where
  "otel_SetTextMapPropagator p w =
     emit (EvSetTextMapPropagator p) (w\<lparr>TextMapPropagator := Some p\<rparr>)"

definition otel_SetTracerProvider :: "provider \<Rightarrow> world \<Rightarrow> world" where
  "otel_SetTracerProvider p w = emit (EvSetProvider Tracer) (w\<lparr>TracerProvider := Some p\<rparr>)"

definition otel_SetMeterProvider :: "provider \<Rightarrow> world \<Rightarrow> world" where
  "otel_SetMeterProvider p w = emit (EvSetProvider Meter) (w\<lparr>MeterProvider := Some p\<rparr>)"

definition global_SetLoggerProvider :: "provider \<Rightarrow> world \<Rightarrow> world" where
  "global_SetLoggerProvider p w = emit (EvSetProvider Logger) (w\<lparr>LoggerProvider := Some p\<rparr>)"

text \<open>The method value \<open>provider.Shutdown\<close>: a teardown callback.\<close>

type_synonym shutdownFunc = "Context \<Rightarrow> world \<Rightarrow> error \<times> world"

definition provider_Shutdown :: "env \<Rightarrow> provider \<Rightarrow> shutdownFunc" where
  "provider_Shutdown env p ctx w =
     (Shutdown_result env (provider_kind p) ctx, emit (EvShutdown (provider_kind p) ctx) w)"

section \<open>otel.go\<close>

definition newPropagator :: propagator where
  "newPropagator = CompositeTextMapPropagator [TraceContext, Baggage]"

definition newTracerProvider :: "env \<Rightarrow> world \<Rightarrow> (err + provider) \<times> world" where
  "newTracerProvider env w =
     (let err = exporter_New env Tracer; w = emit (EvNewExporter Tracer) w
      in case err of
           Some e \<Rightarrow> (Inl e, w)
         | None \<Rightarrow> (Inr (Provider Tracer), emit (EvNewProvider Tracer) w))"

definition newMeterProvider :: "env \<Rightarrow> world \<Rightarrow> (err + provider) \<times> world" where
  "newMeterProvider env w =
     (let err = exporter_New env Meter; w = emit (EvNewExporter Meter) w
      in case err of
           Some e \<Rightarrow> (Inl e, w)
         | None \<Rightarrow> (Inr (Provider Meter), emit (EvNewProvider Meter) w))"

definition newLoggerProvider :: "env \<Rightarrow> world \<Rightarrow> (err + provider) \<times> world" where
  "newLoggerProvider env w =
     (let err = exporter_New env Logger; w = emit (EvNewExporter Logger) w
      in case err of
           Some e \<Rightarrow> (Inl e, w)
         | None \<Rightarrow> (Inr (Provider Logger), emit (EvNewProvider Logger) w))"

text \<open>
  The variables the closures of \<open>setupOTelSDK\<close> share: the slice \<open>shutdownFuncs\<close>, and
  the world the callbacks act on. The function value \<open>shutdown\<close> that \<open>setupOTelSDK\<close>
  returns is \<open>shutdown\<close> below together with the state it is returned with.
\<close>

record setup_state =
  shutdownFuncs :: "shutdownFunc list"
  world :: world

text \<open>The loop \<open>for _, fn := range shutdownFuncs { err = errors.Join(err, fn(ctx)) }\<close>.\<close>

fun range_shutdownFuncs :: "shutdownFunc list \<Rightarrow> Context \<Rightarrow> error \<Rightarrow> world \<Rightarrow> error \<times> world" where
  "range_shutdownFuncs [] ctx err w = (err, w)"
| "range_shutdownFuncs (fn # fns) ctx err w =
     (case fn ctx w of (e, w') \<Rightarrow> range_shutdownFuncs fns ctx (errors_Join [err, e]) w')"

definition shutdown :: "Context \<Rightarrow> setup_state \<Rightarrow> error \<times> setup_state" where
  "shutdown ctx st =
     (case range_shutdownFuncs (shutdownFuncs st) ctx None (world st) of
        (err, w) \<Rightarrow> (err, st\<lparr>shutdownFuncs := [], world := w\<rparr>))"

text \<open>\<open>handleErr\<close> assigns the named result \<open>err\<close>; here it returns the new value.\<close>

definition handleErr :: "Context \<Rightarrow> error \<Rightarrow> setup_state \<Rightarrow> setup_state \<times> error" where
  "handleErr ctx inErr st =
     (case shutdown ctx st of (e, st') \<Rightarrow> (st', errors_Join [inErr, e]))"

definition append_shutdownFuncs :: "env \<Rightarrow> provider \<Rightarrow> setup_state \<Rightarrow> setup_state" where
  "append_shutdownFuncs env p st =
     st\<lparr>shutdownFuncs := shutdownFuncs st @ [provider_Shutdown env p],
        world := emit (EvAppend (provider_kind p)) (world st)\<rparr>"

definition setupOTelSDK :: "env \<Rightarrow> Context \<Rightarrow> world \<Rightarrow> setup_state \<times> error" where
  "setupOTelSDK env ctx w0 =
     (let st = \<lparr>shutdownFuncs = [], world = w0\<rparr>;
          prop = newPropagator;
          st = st\<lparr>world := otel_SetTextMapPropagator prop (world st)\<rparr>
      in case newTracerProvider env (world st) of
        (Inl e, w) \<Rightarrow> handleErr ctx (Some e) (st\<lparr>world := w\<rparr>)
      | (Inr tracerProvider, w) \<Rightarrow>
     (let st = append_shutdownFuncs env tracerProvider (st\<lparr>world := w\<rparr>);
          st = st\<lparr>world := otel_SetTracerProvider tracerProvider (world st)\<rparr>
      in case newMeterProvider env (world st) of
        (Inl e, w) \<Rightarrow> handleErr ctx (Some e) (st\<lparr>world := w\<rparr>)
      | (Inr meterProvider, w) \<Rightarrow>
     (let st = append_shutdownFuncs env meterProvider (st\<lparr>world := w\<rparr>);
          st = st\<lparr>world := otel_SetMeterProvider meterProvider (world st)\<rparr>
      in case newLoggerProvider env (world st) of
        (Inl e, w) \<Rightarrow> handleErr ctx (Some e) (st\<lparr>world := w\<rparr>)
      | (Inr loggerProvider, w) \<Rightarrow>
     (let st = append_shutdownFuncs env loggerProvider (st\<lparr>world := w\<rparr>);
          st = st\<lparr>world := global_SetLoggerProvider loggerProvider (world st)\<rparr>
      in (st, None)))))"

section \<open>main.go\<close>

text \<open>
  \<open>run\<close>, with the goroutine that serves and the \<open>select\<close> replaced by the case that
  fires. The deferred calls run last, in reverse order of their \<open>defer\<close> statements: the
  telemetry shutdown joined into the named result, then \<open>stop\<close>. Building the server
  value and its handler affects neither the error returned nor the order of the calls
  and is left out.
\<close>

definition stop :: "world \<Rightarrow> world" where
  "stop w = emit EvStop w"

definition srv_Shutdown :: "env \<Rightarrow> Context \<Rightarrow> world \<Rightarrow> error \<times> world" where
  "srv_Shutdown env ctx w = (server_Shutdown_result env ctx, emit (EvServerShutdown ctx) w)"

definition run_deferred :: "error \<Rightarrow> setup_state \<Rightarrow> error \<times> world" where
  "run_deferred err otelShutdown =
     (case shutdown Background otelShutdown of
        (e, st) \<Rightarrow> (errors_Join [err, e], stop (world st)))"

definition run :: "env \<Rightarrow> world \<Rightarrow> error \<times> world" where
  "run env w0 =
     (let ctx = NotifyContext Background
      in case setupOTelSDK env ctx w0 of (otelShutdown, err) \<Rightarrow>
         if err \<noteq> None then (err, stop (world otelShutdown))
         else
           (let otelShutdown = otelShutdown\<lparr>world := emit EvGoListenAndServe (world otelShutdown)\<rparr>
            in case select_result env of
                 RecvSrvErr err \<Rightarrow> run_deferred err otelShutdown
               | CtxDone \<Rightarrow>
                   (let w = stop (world otelShutdown)
                    in case srv_Shutdown env Background w of
                         (err, w) \<Rightarrow> run_deferred err (otelShutdown\<lparr>world := w\<rparr>))))"

section \<open>Observations on the record of calls\<close>

text \<open>The events recorded between an earlier world and a later one.\<close>

definition since :: "world \<Rightarrow> world \<Rightarrow> event list" where
  "since w w' = drop (length (events w)) (events w')"

fun is_EvShutdown :: "event \<Rightarrow> bool" where
  "is_EvShutdown (EvShutdown k ctx) = True"
| "is_EvShutdown ev = False"

fun constructed_kind :: "event \<Rightarrow> kind option" where
  "constructed_kind (EvNewProvider k) = Some k"
| "constructed_kind ev = None"

fun shutdown_kind :: "event \<Rightarrow> kind option" where
  "shutdown_kind (EvShutdown k ctx) = Some k"
| "shutdown_kind ev = None"

fun propagator_set :: "event \<Rightarrow> propagator option" where
  "propagator_set (EvSetTextMapPropagator p) = Some p"
| "propagator_set ev = None"

fun server_shutdown_ctx :: "event \<Rightarrow> Context option" where
  "server_shutdown_ctx (EvServerShutdown c) = Some c"
| "server_shutdown_ctx ev = None"

text \<open>
  The providers that \<open>setupOTelSDK\<close> builds before it reaches provider \<open>i\<close>: the source
  builds the tracer, then the meter, then the logger provider.
\<close>

definition constructed_before :: "kind \<Rightarrow> kind list" where
  "constructed_before i = takeWhile (\<lambda>k. k \<noteq> i) [Tracer, Meter, Logger]"

text \<open>
  What the loop of \<open>shutdown\<close> accumulates when the registry holds the \<open>Shutdown\<close>
  methods of the providers \<open>ks\<close>, in that order.
\<close>

definition teardown_errors :: "env \<Rightarrow> Context \<Rightarrow> kind list \<Rightarrow> error" where
  "teardown_errors env ctx ks =
     fold (\<lambda>k acc. errors_Join [acc, Shutdown_result env k ctx]) ks None"

text \<open>The calls of a \<open>setupOTelSDK\<close> in which every constructor succeeds, in order.\<close>

definition construction_sequence :: "event list" where
  "construction_sequence =
     [EvSetTextMapPropagator newPropagator,
      EvNewExporter Tracer, EvNewProvider Tracer, EvAppend Tracer, EvSetProvider Tracer,
      EvNewExporter Meter, EvNewProvider Meter, EvAppend Meter, EvSetProvider Meter,
      EvNewExporter Logger, EvNewProvider Logger, EvAppend Logger, EvSetProvider Logger]"

subsection \<open>Concrete runs\<close>

definition world0 :: world where
  "world0 = \<lparr>events = [], TextMapPropagator = None, TracerProvider = None,
             MeterProvider = None, LoggerProvider = None\<rparr>"

text \<open>
  Every constructor succeeds; the tracer and logger providers fail to shut down, the
  meter provider shuts down cleanly; the interrupt arrives before any server error.
\<close>

definition env_ok :: env where
  "env_ok = \<lparr>exporter_New = (\<lambda>k. None),
             Shutdown_result = (\<lambda>k ctx. if k = Meter then None
                                  else if k = Tracer then Some (Err ''tracer shutdown'')
                                  else Some (Err ''logger shutdown'')),
             select_result = CtxDone,
             server_Shutdown_result = (\<lambda>ctx. None)\<rparr>"

definition env_meter_fails :: env where
  "env_meter_fails =
     env_ok\<lparr>exporter_New := (\<lambda>k. if k = Meter then Some (Err ''meter'') else None)\<rparr>"

definition env_logger_fails :: env where
  "env_logger_fails =
     env_ok\<lparr>exporter_New := (\<lambda>k. if k = Logger then Some (Err ''logger'') else None)\<rparr>"

definition env_listen_fails :: env where
  "env_listen_fails = env_ok\<lparr>select_result := RecvSrvErr (Some (Err ''listen''))\<rparr>"

text \<open>The state a fully successful setup returns in that environment.\<close>

definition setup_ok :: setup_state where
  "setup_ok = fst (setupOTelSDK env_ok (NotifyContext Background) world0)"

section \<open>Auxiliary facts\<close>

lemmas setup_defs = setupOTelSDK_def handleErr_def shutdown_def append_shutdownFuncs_def
  newTracerProvider_def newMeterProvider_def newLoggerProvider_def provider_Shutdown_def
  otel_SetTextMapPropagator_def otel_SetTracerProvider_def otel_SetMeterProvider_def
  global_SetLoggerProvider_def emit_def Let_def

lemmas run_defs = run_def run_deferred_def stop_def srv_Shutdown_def

lemmas env_defs = env_ok_def env_meter_fails_def env_logger_fails_def
  env_listen_fails_def world0_def

lemma errors_Is_refl: "errors_Is e e"
  by (cases e) simp_all

lemma error_Is_Join2:
  "error_Is a t \<or> error_Is b t \<Longrightarrow> error_Is (errors_Join [a, b]) t"
  by (cases a; cases b) (auto simp: errors_Join_def)

lemma error_Is_fold_Join:
  "error_Is acc t \<or> (\<exists>k \<in> set ks. error_Is (Shutdown_result env k ctx) t) \<Longrightarrow>
   error_Is (fold (\<lambda>k acc. errors_Join [acc, Shutdown_result env k ctx]) ks acc) t"
proof (induction ks arbitrary: acc)
  case Nil
  then show ?case by simp
next
  case (Cons k ks)
  show ?case
  proof (cases "error_Is acc t \<or> error_Is (Shutdown_result env k ctx) t")
    case True
    then have "error_Is (errors_Join [acc, Shutdown_result env k ctx]) t"
      by (rule error_Is_Join2)
    then show ?thesis using Cons.IH by simp
  next
    case False
    with Cons.prems have "\<exists>k \<in> set ks. error_Is (Shutdown_result env k ctx) t" by auto
    then show ?thesis using Cons.IH by simp
  qed
qed

lemma error_Is_teardown_errors:
  assumes "k \<in> set ks" and "Shutdown_result env k ctx = Some e"
  shows "error_Is (teardown_errors env ctx ks) e"
proof -
  have "error_Is (Shutdown_result env k ctx) e"
    using assms(2) by (simp add: errors_Is_refl)
  with assms(1) show ?thesis
    unfolding teardown_errors_def by (intro error_Is_fold_Join) blast
qed

text \<open>The state and world a fully successful \<open>setupOTelSDK\<close> returns.\<close>

lemma setup_success:
  assumes "\<forall>k. exporter_New env k = None"
  shows "setupOTelSDK env ctx w =
    (\<lparr>shutdownFuncs = [provider_Shutdown env (Provider Tracer),
                       provider_Shutdown env (Provider Meter),
                       provider_Shutdown env (Provider Logger)],
      world = w\<lparr>events := events w @ construction_sequence,
                TextMapPropagator := Some newPropagator,
                TracerProvider := Some (Provider Tracer),
                MeterProvider := Some (Provider Meter),
                LoggerProvider := Some (Provider Logger)\<rparr>\<rparr>, None)"
  using assms
  by (simp add: setupOTelSDK_def append_shutdownFuncs_def
      newTracerProvider_def newMeterProvider_def newLoggerProvider_def
      otel_SetTextMapPropagator_def otel_SetTracerProvider_def otel_SetMeterProvider_def
      global_SetLoggerProvider_def emit_def Let_def construction_sequence_def)

text \<open>One run of \<open>shutdown\<close> over the registry of a fully successful setup.\<close>

lemma shutdown_three:
  "shutdown ctx \<lparr>shutdownFuncs = [provider_Shutdown env (Provider Tracer),
                                  provider_Shutdown env (Provider Meter),
                                  provider_Shutdown env (Provider Logger)], world = w\<rparr> =
   (teardown_errors env ctx [Tracer, Meter, Logger],
    \<lparr>shutdownFuncs = [],
     world = w\<lparr>events := events w @
       [EvShutdown Tracer ctx, EvShutdown Meter ctx, EvShutdown Logger ctx]\<rparr>\<rparr>)"
  by (simp add: shutdown_def provider_Shutdown_def emit_def teardown_errors_def)

text \<open>Whatever the registry holds, \<open>shutdown\<close> leaves it empty, and on an empty
  registry it does nothing.\<close>

lemma shutdown_clears_registry: "shutdownFuncs (snd (shutdown ctx st)) = []"
  by (simp add: shutdown_def split: prod.splits)

lemma shutdown_empty_registry: "shutdownFuncs st = [] \<Longrightarrow> shutdown ctx st = (None, st)"
  by (simp add: shutdown_def)

lemma shutdown_twice: "shutdown ctx2 (snd (shutdown ctx1 st)) = (None, snd (shutdown ctx1 st))"
  by (rule shutdown_empty_registry) (rule shutdown_clears_registry)

text \<open>A run in which some constructor fails has a first failing provider.\<close>

lemma failure_has_first:
  assumes "exporter_New env k = Some e"
  shows "\<exists>i e'. exporter_New env i = Some e'
           \<and> (\<forall>j \<in> set (constructed_before i). exporter_New env j = None)"
proof (cases "exporter_New env Tracer")
  case (Some a)
  then show ?thesis
    by (intro exI[of _ Tracer] exI[of _ a]) (simp add: constructed_before_def)
next
  case t: None
  show ?thesis
  proof (cases "exporter_New env Meter")
    case (Some a)
    with t show ?thesis
      by (intro exI[of _ Meter] exI[of _ a]) (simp add: constructed_before_def)
  next
    case m: None
    have "k = Logger" using assms t m by (cases k) simp_all
    with assms t m show ?thesis
      by (intro exI[of _ Logger] exI[of _ e]) (simp add: constructed_before_def)
  qed
qed

lemma env_ok_constructs: "\<forall>k. exporter_New env_ok k = None"
  by (simp add: env_ok_def)

lemma env_listen_fails_constructs: "\<forall>k. exporter_New env_listen_fails k = None"
  by (simp add: env_listen_fails_def env_ok_def)

section \<open>Failure during setup\<close>

text \<open>
  C1. Let provider \<open>i\<close> (tracer, meter or logger) be the one whose constructor fails in
  \<open>setupOTelSDK\<close>, the providers before it having been built. Then the \<open>Shutdown\<close> calls
  made before \<open>setupOTelSDK\<close> returns are exactly one per provider built before \<open>i\<close>, in
  construction order, and the error returned is \<open>errors.Join\<close> of the construction error
  with the error the shutdown loop accumulated from those calls; it contains the
  construction error and every error a teardown returned.
\<close>

theorem setup_failure_tears_down_earlier:
  assumes "exporter_New env i = Some e"
    and "\<forall>j \<in> set (constructed_before i). exporter_New env j = None"
  shows "case setupOTelSDK env ctx w of (st, err) \<Rightarrow>
           filter is_EvShutdown (since w (world st)) =
             map (\<lambda>k. EvShutdown k ctx) (constructed_before i)
         \<and> err = errors_Join [Some e, teardown_errors env ctx (constructed_before i)]
         \<and> error_Is err e
         \<and> (\<forall>j \<in> set (constructed_before i). \<forall>e'.
              Shutdown_result env j ctx = Some e' \<longrightarrow> error_Is err e')"
proof -
  obtain st err where r: "setupOTelSDK env ctx w = (st, err)"
    by (cases "setupOTelSDK env ctx w")
  have ev: "filter is_EvShutdown (since w (world st)) =
             map (\<lambda>k. EvShutdown k ctx) (constructed_before i)"
    and er: "err = errors_Join [Some e, teardown_errors env ctx (constructed_before i)]"
    using assms r
    by (cases i; simp add: setup_defs since_def constructed_before_def teardown_errors_def;
        fastforce)+
  have c1: "error_Is err e"
    unfolding er by (rule error_Is_Join2) (simp add: errors_Is_refl)
  have c2: "error_Is err e'"
    if "j \<in> set (constructed_before i)" "Shutdown_result env j ctx = Some e'" for j e'
    unfolding er using error_Is_teardown_errors[OF that] by (intro error_Is_Join2) simp
  show ?thesis using r ev er c1 c2 by simp
qed

theorem setup_failure_tears_down_earlier_witness:
  "exporter_New env_logger_fails Logger = Some (Err ''logger'')
   \<and> exporter_New env_logger_fails Tracer = None
   \<and> exporter_New env_logger_fails Meter = None
   \<and> constructed_before Logger = [Tracer, Meter]
   \<and> filter is_EvShutdown
       (since world0 (world (fst (setupOTelSDK env_logger_fails (NotifyContext Background) world0))))
       = [EvShutdown Tracer (NotifyContext Background), EvShutdown Meter (NotifyContext Background)]
   \<and> snd (setupOTelSDK env_logger_fails (NotifyContext Background) world0) =
       Some (JoinError [Err ''logger'', JoinError [JoinError [Err ''tracer shutdown'']]])
   \<and> error_Is (snd (setupOTelSDK env_logger_fails (NotifyContext Background) world0))
       (Err ''tracer shutdown'')"
proof -
  have h1: "exporter_New env_logger_fails Logger = Some (Err ''logger'')"
    by (simp add: env_defs)
  have h2: "\<forall>j \<in> set (constructed_before Logger). exporter_New env_logger_fails j = None"
    by (simp add: env_defs constructed_before_def)
  have h3: "Shutdown_result env_logger_fails Tracer (NotifyContext Background) =
              Some (Err ''tracer shutdown'')"
    by (simp add: env_defs)
  show ?thesis
    using setup_failure_tears_down_earlier[OF h1 h2, where ctx = "NotifyContext Background"
        and w = world0] h3
    by (simp add: case_prod_beta constructed_before_def teardown_errors_def errors_Join_def
        env_defs)
qed

text \<open>
  C5. If the meter provider's constructor fails (the tracer provider having been built),
  the calls of \<open>setupOTelSDK\<close> are: install the propagator, build, register and install
  the tracer provider, try the meter exporter, shut the tracer provider down. So the
  tracer provider's \<open>Shutdown\<close> runs exactly once, nothing of the logger provider is
  constructed or installed, and the returned error joins the meter construction error
  with the teardown result, hence contains the construction error.
\<close>

theorem meter_failure_scenario:
  assumes "exporter_New env Tracer = None" and "exporter_New env Meter = Some e"
  shows "case setupOTelSDK env ctx w of (st, err) \<Rightarrow>
           since w (world st) =
             [EvSetTextMapPropagator newPropagator,
              EvNewExporter Tracer, EvNewProvider Tracer, EvAppend Tracer, EvSetProvider Tracer,
              EvNewExporter Meter,
              EvShutdown Tracer ctx]
         \<and> count_list (since w (world st)) (EvShutdown Tracer ctx) = 1
         \<and> EvNewExporter Logger \<notin> set (since w (world st))
         \<and> EvNewProvider Logger \<notin> set (since w (world st))
         \<and> LoggerProvider (world st) = LoggerProvider w
         \<and> err = errors_Join [Some e, errors_Join [None, Shutdown_result env Tracer ctx]]
         \<and> error_Is err e"
proof -
  have "error_Is (errors_Join [Some e, errors_Join [None, Shutdown_result env Tracer ctx]]) e"
    by (rule error_Is_Join2) (simp add: errors_Is_refl)
  then show ?thesis
    using assms by (simp add: setup_defs since_def)
qed

theorem meter_failure_scenario_witness:
  "exporter_New env_meter_fails Tracer = None
   \<and> exporter_New env_meter_fails Meter = Some (Err ''meter'')
   \<and> since world0 (world (fst (setupOTelSDK env_meter_fails (NotifyContext Background) world0))) =
       [EvSetTextMapPropagator newPropagator,
        EvNewExporter Tracer, EvNewProvider Tracer, EvAppend Tracer, EvSetProvider Tracer,
        EvNewExporter Meter,
        EvShutdown Tracer (NotifyContext Background)]
   \<and> snd (setupOTelSDK env_meter_fails (NotifyContext Background) world0) =
       Some (JoinError [Err ''meter'', JoinError [Err ''tracer shutdown'']])
   \<and> error_Is (snd (setupOTelSDK env_meter_fails (NotifyContext Background) world0))
       (Err ''meter'')"
proof -
  have h1: "exporter_New env_meter_fails Tracer = None"
    by (simp add: env_defs)
  have h2: "exporter_New env_meter_fails Meter = Some (Err ''meter'')"
    by (simp add: env_defs)
  show ?thesis
    using meter_failure_scenario[OF h1 h2, where ctx = "NotifyContext Background" and w = world0]
    by (simp add: case_prod_beta errors_Join_def env_defs)
qed

text \<open>
  C6. Let provider \<open>i\<close> be the one whose constructor fails in \<open>setupOTelSDK\<close>, the
  providers before it having been built (every failing run has such a first failing
  provider, see \<open>failure_has_first\<close>). Then \<open>setupOTelSDK\<close> returns the combined
  error: \<open>errors.Join\<close> of the construction error with the error its cleanup accumulated
  from the \<open>Shutdown\<close> of each provider built before \<open>i\<close>, a non-nil join headed by the
  construction error. That cleanup called each of those \<open>Shutdown\<close> methods and emptied
  the registry, so the shutdown function returned with the error, invoked afterwards
  with any context, calls nothing, changes nothing and returns nil.
\<close>

theorem setup_failure_returns_noop_shutdown:
  assumes "exporter_New env i = Some e"
    and "\<forall>j \<in> set (constructed_before i). exporter_New env j = None"
  shows "case setupOTelSDK env ctx w of (st, err) \<Rightarrow>
           err = errors_Join [Some e, teardown_errors env ctx (constructed_before i)]
         \<and> err = Some (JoinError (e # (case teardown_errors env ctx (constructed_before i)
                                         of None \<Rightarrow> [] | Some t \<Rightarrow> [t])))
         \<and> err \<noteq> None
         \<and> filter is_EvShutdown (since w (world st)) =
             map (\<lambda>k. EvShutdown k ctx) (constructed_before i)
         \<and> shutdownFuncs st = []
         \<and> (case shutdown ctx1 st of (e1, st1) \<Rightarrow>
              e1 = None \<and> events (world st1) = events (world st) \<and> st1 = st)"
proof -
  obtain st err where r: "setupOTelSDK env ctx w = (st, err)"
    by (cases "setupOTelSDK env ctx w")
  let ?t = "teardown_errors env ctx (constructed_before i)"
  have er: "err = errors_Join [Some e, ?t]"
    and ev: "filter is_EvShutdown (since w (world st)) =
             map (\<lambda>k. EvShutdown k ctx) (constructed_before i)"
    and reg: "shutdownFuncs st = []"
    using assms r
    by (cases i; simp add: setup_defs since_def constructed_before_def teardown_errors_def;
        fastforce)+
  have shape: "errors_Join [Some e, ?t] =
      Some (JoinError (e # (case ?t of None \<Rightarrow> [] | Some t \<Rightarrow> [t])))"
    by (simp add: errors_Join_def split: option.splits)
  have noop: "shutdown ctx1 st = (None, st)"
    using reg by (rule shutdown_empty_registry)
  show ?thesis
    using r er ev reg shape noop by simp
qed

theorem setup_failure_returns_noop_shutdown_witness:
  "exporter_New env_meter_fails Meter = Some (Err ''meter'')
   \<and> constructed_before Meter = [Tracer]
   \<and> exporter_New env_meter_fails Tracer = None
   \<and> Shutdown_result env_meter_fails Tracer (NotifyContext Background) =
       Some (Err ''tracer shutdown'')
   \<and> snd (setupOTelSDK env_meter_fails (NotifyContext Background) world0) =
       Some (JoinError [Err ''meter'', JoinError [Err ''tracer shutdown'']])
   \<and> filter is_EvShutdown
       (since world0 (world (fst (setupOTelSDK env_meter_fails (NotifyContext Background) world0))))
       = [EvShutdown Tracer (NotifyContext Background)]
   \<and> shutdownFuncs (fst (setupOTelSDK env_meter_fails (NotifyContext Background) world0)) = []
   \<and> shutdown Background (fst (setupOTelSDK env_meter_fails (NotifyContext Background) world0)) =
       (None, fst (setupOTelSDK env_meter_fails (NotifyContext Background) world0))"
proof -
  have h1: "exporter_New env_meter_fails Meter = Some (Err ''meter'')"
    by (simp add: env_defs)
  have h2: "\<forall>j \<in> set (constructed_before Meter). exporter_New env_meter_fails j = None"
    by (simp add: env_defs constructed_before_def)
  have h3: "Shutdown_result env_meter_fails Tracer (NotifyContext Background) =
       Some (Err ''tracer shutdown'')"
    by (simp add: env_defs)
  have v: "errors_Join [Some (Err ''meter''),
             teardown_errors env_meter_fails (NotifyContext Background) (constructed_before Meter)]
           = Some (JoinError [Err ''meter'', JoinError [Err ''tracer shutdown'']])"
    by (simp add: constructed_before_def teardown_errors_def errors_Join_def env_defs)
  show ?thesis
    using setup_failure_returns_noop_shutdown[OF h1 h2, where ctx = "NotifyContext Background"
        and w = world0 and ?ctx1.0 = Background] h1 h3 v
    by (auto simp add: case_prod_beta prod_eq_iff constructed_before_def env_defs)
qed

text \<open>
  C10. If a provider constructor fails, the composite propagator installed at the start
  of \<open>setupOTelSDK\<close> is still the process-wide default when it returns, and still after
  the returned shutdown function has run: the propagator is set once and never again,
  while the providers that were constructed are exactly those shut down by the cleanup,
  and the registry is left empty.
\<close>

theorem propagator_survives_setup_failure:
  assumes "exporter_New env k = Some e"
  shows "case setupOTelSDK env ctx w of (st, err) \<Rightarrow>
           err \<noteq> None
         \<and> TextMapPropagator (world st) = Some newPropagator
         \<and> List.map_filter propagator_set (since w (world st)) = [newPropagator]
         \<and> shutdownFuncs st = []
         \<and> List.map_filter shutdown_kind (since w (world st)) =
             List.map_filter constructed_kind (since w (world st))
         \<and> TextMapPropagator (world (snd (shutdown ctx1 st))) = Some newPropagator"
  using assms
  by (cases k) (simp_all add: setup_defs since_def errors_Join_def split: option.splits)

theorem propagator_survives_setup_failure_witness:
  "exporter_New env_meter_fails Meter = Some (Err ''meter'')
   \<and> TextMapPropagator (world (fst (setupOTelSDK env_meter_fails (NotifyContext Background) world0)))
       = Some (CompositeTextMapPropagator [TraceContext, Baggage])
   \<and> List.map_filter shutdown_kind
       (since world0 (world (fst (setupOTelSDK env_meter_fails (NotifyContext Background) world0))))
       = [Tracer]
   \<and> List.map_filter constructed_kind
       (since world0 (world (fst (setupOTelSDK env_meter_fails (NotifyContext Background) world0))))
       = [Tracer]"
proof -
  have h: "exporter_New env_meter_fails Meter = Some (Err ''meter'')"
    by (simp add: env_defs)
  have v: "List.map_filter constructed_kind
       (since world0 (world (fst (setupOTelSDK env_meter_fails (NotifyContext Background) world0))))
       = [Tracer]"
    by (simp add: setup_defs since_def env_defs)
  show ?thesis
    using propagator_survives_setup_failure[OF h, where ctx = "NotifyContext Background"
        and w = world0 and ?ctx1.0 = Background] h v
    by (simp add: case_prod_beta newPropagator_def)
qed

section \<open>The shutdown function of a successful setup\<close>

text \<open>
  C2. After a successful \<open>setupOTelSDK\<close>, the first invocation of the returned shutdown
  function calls the three teardown callbacks and empties the registry, whatever they
  return; a second invocation returns nil, records no call and leaves the state as it
  was.
\<close>

theorem shutdown_idempotent:
  assumes "\<forall>k. exporter_New env k = None"
  shows "case setupOTelSDK env ctx w of (st, err) \<Rightarrow>
           err = None \<and>
           (case shutdown ctx1 st of (e1, st1) \<Rightarrow>
              filter is_EvShutdown (since (world st) (world st1)) =
                [EvShutdown Tracer ctx1, EvShutdown Meter ctx1, EvShutdown Logger ctx1]
            \<and> shutdownFuncs st1 = []
            \<and> (case shutdown ctx2 st1 of (e2, st2) \<Rightarrow>
                 e2 = None \<and> events (world st2) = events (world st1) \<and> st2 = st1))"
  by (simp add: setup_success[OF assms] shutdown_three since_def) (simp add: shutdown_def)

theorem shutdown_idempotent_witness:
  "(\<forall>k. exporter_New env_ok k = None)
   \<and> snd (setupOTelSDK env_ok (NotifyContext Background) world0) = None
   \<and> fst (shutdown Background setup_ok) =
       Some (JoinError [JoinError [JoinError [Err ''tracer shutdown'']], Err ''logger shutdown''])
   \<and> shutdown Background (snd (shutdown Background setup_ok)) =
       (None, snd (shutdown Background setup_ok))"
proof -
  have v: "fst (shutdown Background setup_ok) =
       Some (JoinError [JoinError [JoinError [Err ''tracer shutdown'']], Err ''logger shutdown''])"
    by (simp add: setup_ok_def setup_success[OF env_ok_constructs] shutdown_three
        teardown_errors_def errors_Join_def)
       (simp add: env_ok_def)
  show ?thesis
    using shutdown_idempotent[OF env_ok_constructs, where ctx = "NotifyContext Background"
        and w = world0 and ?ctx1.0 = Background and ?ctx2.0 = Background]
      env_ok_constructs v
    by (simp add: case_prod_beta setup_ok_def prod_eq_iff)
qed

text \<open>
  C3. After a successful \<open>setupOTelSDK\<close>, invoking the returned shutdown function makes
  exactly three calls, in registration order: the tracer provider's \<open>Shutdown\<close>, then
  the meter provider's, then the logger provider's; not the reverse order.
\<close>

theorem shutdown_forward_order:
  assumes "\<forall>k. exporter_New env k = None"
  shows "case setupOTelSDK env ctx w of (st, err) \<Rightarrow>
           (case shutdown ctx1 st of (e1, st1) \<Rightarrow>
              since (world st) (world st1) =
                [EvShutdown Tracer ctx1, EvShutdown Meter ctx1, EvShutdown Logger ctx1]
            \<and> since (world st) (world st1) \<noteq>
                [EvShutdown Logger ctx1, EvShutdown Meter ctx1, EvShutdown Tracer ctx1])"
  by (simp add: setup_success[OF assms] shutdown_three since_def)

theorem shutdown_forward_order_witness:
  "(\<forall>k. exporter_New env_ok k = None)
   \<and> since (world setup_ok) (world (snd (shutdown Background setup_ok))) =
       [EvShutdown Tracer Background, EvShutdown Meter Background, EvShutdown Logger Background]"
  using shutdown_forward_order[OF env_ok_constructs, where ctx = "NotifyContext Background"
      and w = world0 and ?ctx1.0 = Background] env_ok_constructs
  by (simp add: case_prod_beta setup_ok_def)

text \<open>
  C4. After a successful \<open>setupOTelSDK\<close>, the error the returned shutdown function
  returns is the nested join of the three callbacks' results in registration order. If
  the callbacks of two distinct providers return non-nil errors, both are found in it by
  \<open>errors.Is\<close>.
\<close>

theorem shutdown_joins_both_errors:
  assumes "\<forall>k. exporter_New env k = None"
    and "k1 \<noteq> k2"
    and "Shutdown_result env k1 ctx1 = Some e1"
    and "Shutdown_result env k2 ctx1 = Some e2"
  shows "case setupOTelSDK env ctx w of (st, err) \<Rightarrow>
           (case shutdown ctx1 st of (e, st1) \<Rightarrow>
              e = errors_Join [errors_Join [errors_Join [None, Shutdown_result env Tracer ctx1],
                                            Shutdown_result env Meter ctx1],
                               Shutdown_result env Logger ctx1]
            \<and> error_Is e e1 \<and> error_Is e e2)"
proof -
  have k1: "k1 \<in> set [Tracer, Meter, Logger]" and k2: "k2 \<in> set [Tracer, Meter, Logger]"
    by (cases k1; simp) (cases k2; simp)
  have "error_Is (teardown_errors env ctx1 [Tracer, Meter, Logger]) e1"
    using k1 assms(3) by (rule error_Is_teardown_errors)
  moreover have "error_Is (teardown_errors env ctx1 [Tracer, Meter, Logger]) e2"
    using k2 assms(4) by (rule error_Is_teardown_errors)
  moreover have "teardown_errors env ctx1 [Tracer, Meter, Logger] =
      errors_Join [errors_Join [errors_Join [None, Shutdown_result env Tracer ctx1],
                                Shutdown_result env Meter ctx1],
                   Shutdown_result env Logger ctx1]"
    by (simp add: teardown_errors_def)
  ultimately show ?thesis
    by (simp add: setup_success[OF assms(1)] shutdown_three)
qed

theorem shutdown_joins_both_errors_witness:
  "(\<forall>k. exporter_New env_ok k = None)
   \<and> Tracer \<noteq> Logger
   \<and> Shutdown_result env_ok Tracer Background = Some (Err ''tracer shutdown'')
   \<and> Shutdown_result env_ok Logger Background = Some (Err ''logger shutdown'')
   \<and> error_Is (fst (shutdown Background setup_ok)) (Err ''tracer shutdown'')
   \<and> error_Is (fst (shutdown Background setup_ok)) (Err ''logger shutdown'')"
proof -
  have h2: "Tracer \<noteq> Logger" by simp
  have h3: "Shutdown_result env_ok Tracer Background = Some (Err ''tracer shutdown'')"
    by (simp add: env_ok_def)
  have h4: "Shutdown_result env_ok Logger Background = Some (Err ''logger shutdown'')"
    by (simp add: env_ok_def)
  show ?thesis
    using shutdown_joins_both_errors[OF env_ok_constructs h2 h3 h4,
        where ctx = "NotifyContext Background" and w = world0]
      env_ok_constructs h3 h4
    by (auto simp add: case_prod_beta setup_ok_def)
qed

section \<open>Order of construction\<close>

text \<open>
  C7. In every run of \<open>setupOTelSDK\<close> the calls other than teardowns follow one fixed
  sequence: the propagator is installed; then for the tracer, the meter and the logger
  provider in turn: its exporter is requested, the provider is built, its \<open>Shutdown\<close> is
  appended to the registry, and only then is it installed as the default. A run stops in
  that sequence only right after an exporter request (the one that failed). When every
  constructor succeeds the whole sequence runs, the registry holds the three \<open>Shutdown\<close>
  methods in construction order and the four defaults are installed.
\<close>

theorem construction_order:
  "case setupOTelSDK env ctx w of (st, err) \<Rightarrow>
     (let evs = filter (\<lambda>ev. \<not> is_EvShutdown ev) (since w (world st))
      in evs = take 2 construction_sequence \<or> evs = take 6 construction_sequence
       \<or> evs = take 10 construction_sequence \<or> evs = construction_sequence)
   \<and> ((\<forall>k. exporter_New env k = None) \<longrightarrow>
        since w (world st) = construction_sequence
      \<and> shutdownFuncs st = [provider_Shutdown env (Provider Tracer),
                             provider_Shutdown env (Provider Meter),
                             provider_Shutdown env (Provider Logger)]
      \<and> TextMapPropagator (world st) = Some newPropagator
      \<and> TracerProvider (world st) = Some (Provider Tracer)
      \<and> MeterProvider (world st) = Some (Provider Meter)
      \<and> LoggerProvider (world st) = Some (Provider Logger))"
  by (simp add: setup_defs since_def construction_sequence_def split: option.splits) blast

theorem construction_order_witness:
  "(\<forall>k. exporter_New env_ok k = None)
   \<and> since world0 (world setup_ok) =
       [EvSetTextMapPropagator (CompositeTextMapPropagator [TraceContext, Baggage]),
        EvNewExporter Tracer, EvNewProvider Tracer, EvAppend Tracer, EvSetProvider Tracer,
        EvNewExporter Meter, EvNewProvider Meter, EvAppend Meter, EvSetProvider Meter,
        EvNewExporter Logger, EvNewProvider Logger, EvAppend Logger, EvSetProvider Logger]
   \<and> shutdownFuncs setup_ok = [provider_Shutdown env_ok (Provider Tracer),
                                provider_Shutdown env_ok (Provider Meter),
                                provider_Shutdown env_ok (Provider Logger)]"
  using construction_order[where env = env_ok and ctx = "NotifyContext Background"
      and w = world0] env_ok_constructs
  by (simp add: case_prod_beta setup_ok_def construction_sequence_def newPropagator_def)

section \<open>run\<close>

text \<open>
  C8, as stated, fails: when the interrupt wins the \<open>select\<close>, the one context \<open>run\<close>
  hands to \<open>srv.Shutdown\<close> is \<open>context.Background()\<close>, which carries no deadline, so no
  grace deadline bounds the server shutdown.
\<close>

theorem server_shutdown_deadline_counterexample:
  "select_result env_ok = CtxDone
   \<and> List.map_filter server_shutdown_ctx (events (snd (run env_ok world0))) = [Background]
   \<and> Deadline Background = None"
  by (simp add: run_defs setup_defs env_ok_def world0_def)

text \<open>
  C8, amended. When every constructor succeeds and the interrupt wins the \<open>select\<close>,
  \<open>run\<close> calls \<open>stop\<close>, then \<open>srv.Shutdown\<close> once, with the background context, which has
  no deadline; the server-error receive does not fire; the deferred telemetry shutdown
  and \<open>stop\<close> follow; and \<open>run\<close> returns the join of the error of \<open>srv.Shutdown\<close> with the
  error of the telemetry shutdown.
\<close>

theorem interrupt_path:
  assumes "\<forall>k. exporter_New env k = None" and "select_result env = CtxDone"
  shows "case run env w of (err, w') \<Rightarrow>
           since w w' = construction_sequence @
             [EvGoListenAndServe, EvStop, EvServerShutdown Background,
              EvShutdown Tracer Background, EvShutdown Meter Background,
              EvShutdown Logger Background, EvStop]
         \<and> map Deadline (List.map_filter server_shutdown_ctx (since w w')) = [None]
         \<and> err = errors_Join [server_Shutdown_result env Background,
                               teardown_errors env Background [Tracer, Meter, Logger]]"
  using assms(2)
  by (simp add: run_defs setup_success[OF assms(1)] shutdown_three since_def emit_def
      construction_sequence_def)

theorem interrupt_path_witness:
  "(\<forall>k. exporter_New env_ok k = None)
   \<and> select_result env_ok = CtxDone
   \<and> since world0 (snd (run env_ok world0)) = construction_sequence @
       [EvGoListenAndServe, EvStop, EvServerShutdown Background,
        EvShutdown Tracer Background, EvShutdown Meter Background,
        EvShutdown Logger Background, EvStop]
   \<and> fst (run env_ok world0) =
       Some (JoinError [JoinError [JoinError [JoinError [Err ''tracer shutdown'']],
                                   Err ''logger shutdown'']])"
proof -
  have h: "select_result env_ok = CtxDone"
    by (simp add: env_ok_def)
  have v: "errors_Join [server_Shutdown_result env_ok Background,
                        teardown_errors env_ok Background [Tracer, Meter, Logger]] =
       Some (JoinError [JoinError [JoinError [JoinError [Err ''tracer shutdown'']],
                                   Err ''logger shutdown'']])"
    by (simp add: teardown_errors_def errors_Join_def env_ok_def)
  show ?thesis
    using interrupt_path[OF env_ok_constructs h, where w = world0] env_ok_constructs h v
    by (simp add: case_prod_beta)
qed

text \<open>
  C9. When every constructor succeeds and the server-error channel delivers a non-nil
  error \<open>e\<close> first, \<open>run\<close> does not call \<open>srv.Shutdown\<close>; the deferred telemetry shutdown
  runs, and \<open>run\<close> returns \<open>errors.Join\<close> of \<open>e\<close> with the telemetry shutdown's error: a
  join whose first member is \<open>e\<close> itself, followed by the telemetry error when there is
  one. It contains \<open>e\<close> and every error a provider's \<open>Shutdown\<close> returned.
\<close>

theorem server_error_path:
  assumes "\<forall>k. exporter_New env k = None" and "select_result env = RecvSrvErr (Some e)"
  shows "case run env w of (err, w') \<Rightarrow>
           err = errors_Join [Some e, teardown_errors env Background [Tracer, Meter, Logger]]
         \<and> err = Some (JoinError (e # (case teardown_errors env Background [Tracer, Meter, Logger]
                                         of None \<Rightarrow> [] | Some t \<Rightarrow> [t])))
         \<and> error_Is err e
         \<and> (\<forall>k e'. Shutdown_result env k Background = Some e' \<longrightarrow> error_Is err e')
         \<and> since w w' = construction_sequence @
             [EvGoListenAndServe, EvShutdown Tracer Background, EvShutdown Meter Background,
              EvShutdown Logger Background, EvStop]"
proof -
  let ?t = "teardown_errors env Background [Tracer, Meter, Logger]"
  let ?err = "errors_Join [Some e, ?t]"
  have shape: "?err = Some (JoinError (e # (case ?t of None \<Rightarrow> [] | Some t \<Rightarrow> [t])))"
    by (simp add: errors_Join_def split: option.splits)
  have c1: "error_Is ?err e"
    by (rule error_Is_Join2) (simp add: errors_Is_refl)
  have c2: "error_Is ?err e'" if "Shutdown_result env k Background = Some e'" for k e'
  proof -
    have "k \<in> set [Tracer, Meter, Logger]" by (cases k) simp_all
    then have "error_Is ?t e'" using that by (rule error_Is_teardown_errors)
    then show ?thesis by (intro error_Is_Join2) simp
  qed
  have r: "run env w = (?err, w\<lparr>events := events w @ construction_sequence @
             [EvGoListenAndServe, EvShutdown Tracer Background, EvShutdown Meter Background,
              EvShutdown Logger Background, EvStop],
                TextMapPropagator := Some newPropagator,
                TracerProvider := Some (Provider Tracer),
                MeterProvider := Some (Provider Meter),
                LoggerProvider := Some (Provider Logger)\<rparr>)"
    using assms(2)
    by (simp add: run_defs setup_success[OF assms(1)] shutdown_three emit_def)
  show ?thesis
    unfolding r using shape c1 c2 by (simp add: since_def)
qed

theorem server_error_path_witness:
  "(\<forall>k. exporter_New env_listen_fails k = None)
   \<and> select_result env_listen_fails = RecvSrvErr (Some (Err ''listen''))
   \<and> fst (run env_listen_fails world0) =
       Some (JoinError [Err ''listen'',
                        JoinError [JoinError [JoinError [Err ''tracer shutdown'']],
                                   Err ''logger shutdown'']])
   \<and> error_Is (fst (run env_listen_fails world0)) (Err ''listen'')
   \<and> List.map_filter server_shutdown_ctx (since world0 (snd (run env_listen_fails world0))) = []"
proof -
  have h: "select_result env_listen_fails = RecvSrvErr (Some (Err ''listen''))"
    by (simp add: env_listen_fails_def)
  have v: "teardown_errors env_listen_fails Background [Tracer, Meter, Logger] =
       Some (JoinError [JoinError [JoinError [Err ''tracer shutdown'']],
                        Err ''logger shutdown''])"
    by (simp add: teardown_errors_def errors_Join_def env_listen_fails_def env_ok_def)
  show ?thesis
    using server_error_path[OF env_listen_fails_constructs h, where w = world0]
      env_listen_fails_constructs h v
    by (auto simp add: case_prod_beta construction_sequence_def errors_Join_def)
qed

end
